theory Spec2Isabelle
  imports Main
begin

section \<open>Data model of \<open>Solution.ts\<close>\<close>

text \<open>
  A JavaScript string is a sequence of code units; it is modelled as a \<open>string\<close>, one
  \<open>char\<close> per code unit. Every non-ASCII letter of the message templates of the source
  lies in Latin-1 and is written by its code (\<open>CHR 0xE9\<close> is e-acute, \<open>CHR 0xF3\<close> o-acute,
  \<open>CHR 0xFA\<close> u-acute, \<open>CHR 0xED\<close> i-acute, \<open>CHR 0xA1\<close> the inverted exclamation mark,
  \<open>CHR 0x22\<close> the double quote).

  A \<open>Date\<close> is its time value. The text that a template literal prints for a \<open>Date\<close>
  depends on the host's time zone, so the operations that print one take the rendering
  \<open>dateToString\<close> as a parameter.
\<close>

type_synonym Date = int

record Book =
  title :: string
  author :: string
  ISBN :: string

record Loan =
  ISBN :: string
  userID :: string
  date :: Date

text \<open>
  A \<open>User\<close> object is compared by reference (\<open>indexOf\<close> uses strict equality). Its
  private \<open>name\<close> is never assigned after construction, so an object is modelled by its
  identity \<open>ident\<close> together with its name, and reference equality is equality of these
  values.
\<close>

record User =
  ident :: nat
  name :: string

text \<open>The calls on \<open>console\<close>, in the order they are made.\<close>

datatype effect = ConsoleLog string | ConsoleWarn string | ConsoleError string

text \<open>The implementations of \<open>IEmailService\<close>; the source has one.\<close>

datatype IEmailService = ConsoleEmailService

text \<open>
  Reading a property of \<open>undefined\<close> throws a \<open>TypeError\<close>
  (\<open>splice(index, 1)[0]\<close> is \<open>undefined\<close> when nothing was removed).
\<close>

datatype js_error = TypeError

record LibraryManager =
  books :: "Book list"
  loans :: "Loan list"
  emailService :: IEmailService
  observers :: "User list"

section \<open>Strings and arrays of the host language\<close>

text \<open>\<open>String.prototype.startsWith\<close> and \<open>String.prototype.includes\<close> (with no position argument).\<close>

fun String_startsWith :: "string \<Rightarrow> string \<Rightarrow> bool" where
  "String_startsWith s [] = True"
| "String_startsWith [] (c # q) = False"
| "String_startsWith (d # s) (c # q) = (d = c \<and> String_startsWith s q)"

fun String_includes :: "string \<Rightarrow> string \<Rightarrow> bool" where
  "String_includes [] q = (q = [])"
| "String_includes (d # s) q = (String_startsWith (d # s) q \<or> String_includes s q)"

text \<open>The decimal text of an array length inside a template literal.\<close>

fun Number_toString :: "nat \<Rightarrow> string" where
  "Number_toString n =
     (if n < 10 then [char_of (48 + n)]
      else Number_toString (n div 10) @ [char_of (48 + n mod 10)])"

text \<open>\<open>Array.prototype.some\<close>, \<open>findIndex\<close>, \<open>indexOf\<close>, \<open>splice\<close> and \<open>forEach\<close>.
  \<open>Array.prototype.find\<close> is \<open>find\<close> of the list library (\<open>undefined\<close> is \<open>None\<close>) and
  \<open>Array.prototype.filter\<close> is \<open>filter\<close>.\<close>

fun some :: "('a \<Rightarrow> bool) \<Rightarrow> 'a list \<Rightarrow> bool" where
  "some p [] = False"
| "some p (x # xs) = (p x \<or> some p xs)"

fun findIndex :: "('a \<Rightarrow> bool) \<Rightarrow> 'a list \<Rightarrow> int" where
  "findIndex p [] = - 1"
| "findIndex p (x # xs) =
     (if p x then 0
      else (let k = findIndex p xs in if k = - 1 then - 1 else k + 1))"

definition indexOf :: "'a \<Rightarrow> 'a list \<Rightarrow> int" where
  "indexOf x xs = findIndex (\<lambda>y. y = x) xs"

text \<open>\<open>Array_splice xs start deleteCount\<close> is the pair of the removed elements and of the
  array as it is afterwards (\<open>start\<close> is never negative at the call sites).\<close>

definition Array_splice :: "'a list \<Rightarrow> nat \<Rightarrow> nat \<Rightarrow> 'a list \<times> 'a list" where
  "Array_splice xs start deleteCount =
     (take deleteCount (drop start xs), take start xs @ drop (start + deleteCount) xs)"

definition forEach :: "('a \<Rightarrow> effect list) \<Rightarrow> 'a list \<Rightarrow> effect list" where
  "forEach f xs = concat (map f xs)"

section \<open>The collaborators\<close>

definition User_update :: "User \<Rightarrow> string \<Rightarrow> effect list" where
  "User_update this bookTitle =
     [ConsoleLog (name this @ '' ha sido notificado sobre el nuevo libro: '' @ bookTitle)]"

fun IEmailService_sendEmail :: "IEmailService \<Rightarrow> string \<Rightarrow> string \<Rightarrow> effect list" where
  "IEmailService_sendEmail ConsoleEmailService uid message =
     [ConsoleLog (''[INFO] Enviando email a '' @ uid @ '': '' @ message)]"

section \<open>\<open>LibraryManager\<close>\<close>

text \<open>
  A method is a function from the object's state to the state afterwards and the console
  calls it made, with the returned value in front for the searches. The two methods that
  read \<open>splice(index, 1)[0]\<close> may throw.
\<close>

definition LibraryManager_new :: "IEmailService \<Rightarrow> LibraryManager" where
  "LibraryManager_new svc = \<lparr>books = [], loans = [], emailService = svc, observers = []\<rparr>"

definition addObserver :: "User \<Rightarrow> LibraryManager \<Rightarrow> LibraryManager \<times> effect list" where
  "addObserver user s = (s\<lparr>observers := observers s @ [user]\<rparr>, [])"

definition removeObserver :: "User \<Rightarrow> LibraryManager \<Rightarrow> LibraryManager \<times> effect list" where
  "removeObserver user s =
     (let index = indexOf user (observers s) in
      if index \<noteq> - 1
      then (s\<lparr>observers := snd (Array_splice (observers s) (nat index) 1)\<rparr>, [])
      else (s, []))"

definition notifyObservers :: "string \<Rightarrow> LibraryManager \<Rightarrow> LibraryManager \<times> effect list" where
  "notifyObservers bookTitle s =
     (s, forEach (\<lambda>observer. User_update observer bookTitle) (observers s))"

definition addBook ::
  "string \<Rightarrow> string \<Rightarrow> string \<Rightarrow> LibraryManager \<Rightarrow> LibraryManager \<times> effect list" where
  "addBook ttl auth isbn s =
     (if some (\<lambda>book. Book.ISBN book = isbn) (books s)
      then (s, [ConsoleError (''[ERROR] El libro con ISBN '' @ isbn @
                               '' ya existe en la biblioteca.'')])
      else (let book = \<lparr>title = ttl, author = auth, ISBN = isbn\<rparr> in
            (s\<lparr>books := books s @ [book]\<rparr>,
             [ConsoleLog (''[INFO] Libro agregado: '' @ ttl @ '' (ISBN: '' @ isbn @ '')'')])))"

definition removeBook ::
  "string \<Rightarrow> LibraryManager \<Rightarrow> js_error + LibraryManager \<times> effect list" where
  "removeBook isbn s =
     (let index = findIndex (\<lambda>b. Book.ISBN b = isbn) (books s) in
      if index \<noteq> - 1
      then (case Array_splice (books s) (nat index) 1 of
              (removed, rest) \<Rightarrow>
                (case removed of
                   [] \<Rightarrow> Inl TypeError
                 | removedBook # _ \<Rightarrow>
                     Inr (s\<lparr>books := rest\<rparr>,
                          [ConsoleLog (''[INFO] Libro eliminado: '' @ title removedBook @
                                       '' (ISBN: '' @ isbn @ '')'')])))
      else Inr (s, [ConsoleWarn (''[WARNING] Intento de eliminar un libro inexistente con ISBN: ''
                                 @ isbn)]))"

definition searchByTitle ::
  "string \<Rightarrow> LibraryManager \<Rightarrow> Book list \<times> LibraryManager \<times> effect list" where
  "searchByTitle ttl s = (filter (\<lambda>book. String_includes (title book) ttl) (books s), s, [])"

definition searchByAuthor ::
  "string \<Rightarrow> LibraryManager \<Rightarrow> Book list \<times> LibraryManager \<times> effect list" where
  "searchByAuthor auth s = (filter (\<lambda>book. String_includes (author book) auth) (books s), s, [])"

definition searchByISBN ::
  "string \<Rightarrow> LibraryManager \<Rightarrow> Book option \<times> LibraryManager \<times> effect list" where
  "searchByISBN isbn s = (find (\<lambda>book. Book.ISBN book = isbn) (books s), s, [])"

definition search ::
  "string \<Rightarrow> LibraryManager \<Rightarrow> Book list \<times> LibraryManager \<times> effect list" where
  "search query s =
     (let results = filter (\<lambda>book. String_includes (title book) query \<or>
                                   String_includes (author book) query \<or>
                                   Book.ISBN book = query) (books s) in
      (results, s,
       if length results > 0
       then [ConsoleLog (''[INFO] B'' @ [CHR 0xFA] @ ''squeda exitosa para '' @ [CHR 0x22] @
                         query @ [CHR 0x22] @ ''. Resultados encontrados: '' @
                         Number_toString (length results))]
       else [ConsoleLog (''[INFO] B'' @ [CHR 0xFA] @ ''squeda para '' @ [CHR 0x22] @
                         query @ [CHR 0x22] @ '' no produjo resultados.'')]))"

text \<open>The private method \<open>sendEmail\<close> of \<open>LibraryManager\<close>.\<close>

definition sendEmail :: "string \<Rightarrow> string \<Rightarrow> LibraryManager \<Rightarrow> LibraryManager \<times> effect list" where
  "sendEmail uid message s =
     (s, [ConsoleLog (''Enviando email a '' @ uid @ '': '' @ message)])"

text \<open>\<open>now\<close> is the value of \<open>new Date()\<close> at the call.\<close>

definition loanBook ::
  "Date \<Rightarrow> string \<Rightarrow> string \<Rightarrow> LibraryManager \<Rightarrow> LibraryManager \<times> effect list" where
  "loanBook now isbn uid s =
     (case find (\<lambda>b. Book.ISBN b = isbn) (books s) of
        Some book \<Rightarrow>
          (let loan = \<lparr>ISBN = isbn, userID = uid, date = now\<rparr>;
               s1 = s\<lparr>loans := loans s @ [loan]\<rparr>;
               (s2, sent) = sendEmail uid (''Has solicitado el libro '' @ title book) s1
           in (s2, ConsoleLog (''[INFO] Pr'' @ [CHR 0xE9] @ ''stamo registrado: '' @
                               title book @ '' a '' @ uid) # sent))
      | None \<Rightarrow>
          (s, [ConsoleWarn (''[WARNING] Intento de pr'' @ [CHR 0xE9] @
                            ''stamo de un libro inexistente con ISBN: '' @ isbn)]))"

definition returnBook ::
  "(Date \<Rightarrow> string) \<Rightarrow> string \<Rightarrow> string \<Rightarrow> LibraryManager \<Rightarrow>
   js_error + LibraryManager \<times> effect list" where
  "returnBook dateToString isbn uid s =
     (let index = findIndex (\<lambda>loan. Loan.ISBN loan = isbn \<and> userID loan = uid) (loans s) in
      if index \<noteq> - 1
      then (case Array_splice (loans s) (nat index) 1 of
              (removed, rest) \<Rightarrow>
                (case removed of
                   [] \<Rightarrow> Inl TypeError
                 | removedLoan # _ \<Rightarrow>
                     (let s1 = s\<lparr>loans := rest\<rparr>;
                          info = ConsoleLog (''[INFO] Devoluci'' @ [CHR 0xF3] @ ''n registrada: '' @
                                   dateToString (date removedLoan) @ '': Usuario '' @ uid @
                                   '', Libro ISBN '' @ isbn)
                      in (case find (\<lambda>b. Book.ISBN b = isbn) (books s1) of
                            Some book \<Rightarrow>
                              (let (s2, sent) =
                                     sendEmail uid (''Has devuelto el libro con ISBN '' @ isbn @
                                                    ''. '' @ [CHR 0xA1] @ ''Gracias!'') s1
                               in Inr (s2, info # sent))
                          | None \<Rightarrow>
                              Inr (s1, [info,
                                        ConsoleError (''[ERROR] El libro con ISBN '' @ isbn @
                                          '' no se encontr'' @ [CHR 0xF3] @
                                          '' en la biblioteca.'')])))))
      else Inr (s, [ConsoleWarn (''[WARNING] Intento de devoluci'' @ [CHR 0xF3] @
                                 ''n de un libro no prestado: ISBN '' @ isbn @
                                 '', Usuario '' @ uid)]))"

definition printAllBooks :: "LibraryManager \<Rightarrow> LibraryManager \<times> effect list" where
  "printAllBooks s =
     (s, forEach (\<lambda>book. [ConsoleLog (''T'' @ [CHR 0xED] @ ''tulo: '' @ title book @
                                       '', Autor: '' @ author book @
                                       '', ISBN: '' @ Book.ISBN book)]) (books s))"

definition printAllLoans ::
  "(Date \<Rightarrow> string) \<Rightarrow> LibraryManager \<Rightarrow> LibraryManager \<times> effect list" where
  "printAllLoans dateToString s =
     (s, forEach (\<lambda>loan. [ConsoleLog (''ISBN: '' @ Loan.ISBN loan @ '', Usuario: '' @
                                       userID loan @ '', Fecha: '' @
                                       dateToString (date loan))]) (loans s))"

section \<open>Sequences of calls\<close>

datatype call =
    AddObserver User
  | RemoveObserver User
  | NotifyObservers string
  | AddBook string string string
  | RemoveBook string
  | SearchByTitle string
  | SearchByAuthor string
  | SearchByISBN string
  | Search string
  | LoanBook Date string string
  | ReturnBook string string
  | PrintAllBooks
  | PrintAllLoans

text \<open>One call: the state and the console calls afterwards; a returned value is dropped.
  \<open>LoanBook now isbn uid\<close> carries the clock reading of the call.\<close>

fun step ::
  "(Date \<Rightarrow> string) \<Rightarrow> call \<Rightarrow> LibraryManager \<Rightarrow> js_error + LibraryManager \<times> effect list" where
  "step dts (AddObserver u) s = Inr (addObserver u s)"
| "step dts (RemoveObserver u) s = Inr (removeObserver u s)"
| "step dts (NotifyObservers t) s = Inr (notifyObservers t s)"
| "step dts (AddBook t a i) s = Inr (addBook t a i s)"
| "step dts (RemoveBook i) s = removeBook i s"
| "step dts (SearchByTitle t) s = Inr (snd (searchByTitle t s))"
| "step dts (SearchByAuthor a) s = Inr (snd (searchByAuthor a s))"
| "step dts (SearchByISBN i) s = Inr (snd (searchByISBN i s))"
| "step dts (Search q) s = Inr (snd (search q s))"
| "step dts (LoanBook now i u) s = Inr (loanBook now i u s)"
| "step dts (ReturnBook i u) s = returnBook dts i u s"
| "step dts PrintAllBooks s = Inr (printAllBooks s)"
| "step dts PrintAllLoans s = Inr (printAllLoans dts s)"

text \<open>A sequence of calls stops at the first exception.\<close>

fun run ::
  "(Date \<Rightarrow> string) \<Rightarrow> call list \<Rightarrow> LibraryManager \<Rightarrow> js_error + LibraryManager \<times> effect list" where
  "run dts [] s = Inr (s, [])"
| "run dts (c # cs) s =
     (case step dts c s of
        Inl e \<Rightarrow> Inl e
      | Inr (s1, out1) \<Rightarrow>
          (case run dts cs s1 of
             Inl e \<Rightarrow> Inl e
           | Inr (s2, out2) \<Rightarrow> Inr (s2, out1 @ out2)))"

section \<open>The states of the demonstration at the end of the source\<close>

text \<open>
  The book built and added at lines 223 to 232 of the source, the catalog that holds it,
  a listener, and the loan that line 235 records (at clock reading 0).
\<close>

definition gatsby :: Book where
  "gatsby = \<lparr>title = ''El Gran Gatsby'', author = ''F. Scott Fitzgerald'', ISBN = ''123456789''\<rparr>"

definition library_gatsby :: LibraryManager where
  "library_gatsby =
     \<lparr>books = [gatsby], loans = [], emailService = ConsoleEmailService, observers = []\<rparr>"

definition ana :: User where
  "ana = \<lparr>ident = 1, name = ''Ana''\<rparr>"

definition loan_user01 :: Loan where
  "loan_user01 = \<lparr>ISBN = ''123456789'', userID = ''user01'', date = 0\<rparr>"

section \<open>Facts about the array and string operations\<close>

lemma some_iff: "some p xs \<longleftrightarrow> (\<exists>x\<in>set xs. p x)"
  by (induction xs) auto

lemma findIndex_ge: "- 1 \<le> findIndex p xs"
  by (induction xs) (auto simp: Let_def)

lemma findIndex_none_iff: "findIndex p xs = - 1 \<longleftrightarrow> (\<forall>x\<in>set xs. \<not> p x)"
proof (induction xs)
  case Nil
  show ?case by simp
next
  case (Cons x xs)
  have "- 1 \<le> findIndex p xs" by (rule findIndex_ge)
  then have "findIndex p xs + 1 \<noteq> - 1" by arith
  with Cons show ?case by (auto simp: Let_def)
qed

lemma findIndex_first:
  assumes "\<forall>y\<in>set pre. \<not> p y" and "p x"
  shows "findIndex p (pre @ x # post) = int (length pre)"
  using assms
proof (induction pre)
  case Nil
  then show ?case by simp
next
  case (Cons a pre)
  then show ?case by (simp add: Let_def)
qed

lemma splice_one: "Array_splice (pre @ x # post) (length pre) 1 = ([x], pre @ post)"
  by (simp add: Array_splice_def)

lemma first_match:
  assumes "\<exists>x\<in>set xs. p x"
  shows "\<exists>pre x post. xs = pre @ x # post \<and> p x \<and> (\<forall>y\<in>set pre. \<not> p y)"
  using assms split_list_first_prop [of xs p] by blast

lemma find_first:
  assumes "\<forall>y\<in>set pre. \<not> p y" and "p x"
  shows "find p (pre @ x # post) = Some x"
  using assms by (induction pre) auto

lemma find_none: "find p xs = None \<longleftrightarrow> (\<forall>x\<in>set xs. \<not> p x)"
  by (induction xs) auto

lemma String_startsWith_iff: "String_startsWith s q \<longleftrightarrow> (\<exists>r. s = q @ r)"
  by (induction s q rule: String_startsWith.induct) auto

lemma String_includes_iff: "String_includes s q \<longleftrightarrow> (\<exists>p r. s = p @ q @ r)"
proof (induction s)
  case Nil
  show ?case by auto
next
  case (Cons d s)
  show ?case
  proof
    assume "String_includes (d # s) q"
    then consider "String_startsWith (d # s) q" | "String_includes s q" by auto
    then show "\<exists>p r. d # s = p @ q @ r"
    proof cases
      case 1
      then obtain r where "d # s = q @ r" by (auto simp: String_startsWith_iff)
      then have "d # s = [] @ q @ r" by simp
      then show ?thesis by blast
    next
      case 2
      with Cons obtain p r where "s = p @ q @ r" by blast
      then have "d # s = (d # p) @ q @ r" by simp
      then show ?thesis by blast
    qed
  next
    assume "\<exists>p r. d # s = p @ q @ r"
    then obtain p r where pr: "d # s = p @ q @ r" by blast
    show "String_includes (d # s) q"
    proof (cases p)
      case Nil
      with pr have "String_startsWith (d # s) q" by (auto simp: String_startsWith_iff)
      then show ?thesis by simp
    next
      case (Cons a p')
      with pr have "s = p' @ q @ r" by simp
      with Cons.IH have "String_includes s q" by blast
      then show ?thesis by simp
    qed
  qed
qed

lemma String_includes_empty: "String_includes s []"
  by (induction s) auto

section \<open>What each method does, by cases on the collections\<close>

lemma addBook_duplicate:
  assumes "\<exists>b\<in>set (books s). Book.ISBN b = i"
  shows "addBook t a i s =
           (s, [ConsoleError (''[ERROR] El libro con ISBN '' @ i @ '' ya existe en la biblioteca.'')])"
  using assms by (simp add: addBook_def some_iff)

lemma addBook_fresh:
  assumes "\<forall>b\<in>set (books s). Book.ISBN b \<noteq> i"
  shows "addBook t a i s =
           (s\<lparr>books := books s @ [\<lparr>title = t, author = a, ISBN = i\<rparr>]\<rparr>,
            [ConsoleLog (''[INFO] Libro agregado: '' @ t @ '' (ISBN: '' @ i @ '')'')])"
  using assms by (simp add: addBook_def some_iff)

lemma removeBook_absent:
  assumes "\<forall>b\<in>set (books s). Book.ISBN b \<noteq> i"
  shows "removeBook i s =
           Inr (s, [ConsoleWarn (''[WARNING] Intento de eliminar un libro inexistente con ISBN: '' @ i)])"
proof -
  have "findIndex (\<lambda>b. Book.ISBN b = i) (books s) = - 1"
    using assms by (simp add: findIndex_none_iff)
  then show ?thesis by (simp add: removeBook_def)
qed

lemma removeBook_at:
  assumes "books s = pre @ b # post" and "Book.ISBN b = i"
    and "\<forall>x\<in>set pre. Book.ISBN x \<noteq> i"
  shows "removeBook i s =
           Inr (s\<lparr>books := pre @ post\<rparr>,
                [ConsoleLog (''[INFO] Libro eliminado: '' @ title b @ '' (ISBN: '' @ i @ '')'')])"
proof -
  have "findIndex (\<lambda>b. Book.ISBN b = i) (books s) = int (length pre)"
    using assms by (simp add: findIndex_first)
  moreover have "Array_splice (books s) (length pre) 1 = ([b], pre @ post)"
    unfolding assms(1) by (rule splice_one)
  ultimately show ?thesis by (simp add: removeBook_def)
qed

lemma loanBook_absent:
  assumes "\<forall>b\<in>set (books s). Book.ISBN b \<noteq> i"
  shows "loanBook now i u s =
           (s, [ConsoleWarn (''[WARNING] Intento de pr'' @ [CHR 0xE9] @
                             ''stamo de un libro inexistente con ISBN: '' @ i)])"
proof -
  have "find (\<lambda>b. Book.ISBN b = i) (books s) = None"
    using assms by (simp add: find_none)
  then show ?thesis by (simp add: loanBook_def)
qed

lemma loanBook_at:
  assumes "books s = pre @ b # post" and "Book.ISBN b = i"
    and "\<forall>x\<in>set pre. Book.ISBN x \<noteq> i"
  shows "loanBook now i u s =
           (s\<lparr>loans := loans s @ [\<lparr>ISBN = i, userID = u, date = now\<rparr>]\<rparr>,
            [ConsoleLog (''[INFO] Pr'' @ [CHR 0xE9] @ ''stamo registrado: '' @ title b @ '' a '' @ u),
             ConsoleLog (''Enviando email a '' @ u @ '': '' @ ''Has solicitado el libro '' @ title b)])"
proof -
  have "find (\<lambda>b. Book.ISBN b = i) (books s) = Some b"
    using assms by (simp add: find_first)
  then show ?thesis by (simp add: loanBook_def sendEmail_def)
qed

lemma returnBook_absent:
  assumes "\<forall>l\<in>set (loans s). \<not> (Loan.ISBN l = i \<and> userID l = u)"
  shows "returnBook dts i u s =
           Inr (s, [ConsoleWarn (''[WARNING] Intento de devoluci'' @ [CHR 0xF3] @
                                 ''n de un libro no prestado: ISBN '' @ i @ '', Usuario '' @ u)])"
proof -
  have "findIndex (\<lambda>l. Loan.ISBN l = i \<and> userID l = u) (loans s) = - 1"
    using assms by (simp add: findIndex_none_iff)
  then show ?thesis by (simp add: returnBook_def)
qed

lemma returnBook_at:
  assumes "loans s = pre @ l # post" and "Loan.ISBN l = i \<and> userID l = u"
    and "\<forall>x\<in>set pre. \<not> (Loan.ISBN x = i \<and> userID x = u)"
  shows "returnBook dts i u s =
           Inr (s\<lparr>loans := pre @ post\<rparr>,
                ConsoleLog (''[INFO] Devoluci'' @ [CHR 0xF3] @ ''n registrada: '' @
                            dts (date l) @ '': Usuario '' @ u @ '', Libro ISBN '' @ i) #
                (if \<exists>b\<in>set (books s). Book.ISBN b = i
                 then [ConsoleLog (''Enviando email a '' @ u @ '': '' @
                                   ''Has devuelto el libro con ISBN '' @ i @ ''. '' @
                                   [CHR 0xA1] @ ''Gracias!'')]
                 else [ConsoleError (''[ERROR] El libro con ISBN '' @ i @ '' no se encontr'' @
                                     [CHR 0xF3] @ '' en la biblioteca.'')]))"
proof -
  have idx: "findIndex (\<lambda>l. Loan.ISBN l = i \<and> userID l = u) (loans s) = int (length pre)"
    using assms by (simp add: findIndex_first)
  have spl: "Array_splice (loans s) (length pre) 1 = ([l], pre @ post)"
    unfolding assms(1) by (rule splice_one)
  show ?thesis
  proof (cases "find (\<lambda>b. Book.ISBN b = i) (books s)")
    case None
    then have "\<not> (\<exists>b\<in>set (books s). Book.ISBN b = i)" by (simp add: find_none)
    with None idx spl show ?thesis by (simp add: returnBook_def)
  next
    case (Some b)
    then have "\<exists>b\<in>set (books s). Book.ISBN b = i"
      by (auto simp: find_Some_iff)
    with Some idx spl show ?thesis by (simp add: returnBook_def sendEmail_def)
  qed
qed

lemma single_match:
  assumes "length (filter p (pre @ l # post)) = 1" and "p l"
  shows "\<forall>x\<in>set (pre @ post). \<not> p x"
proof -
  from assms have "length (filter p pre) + length (filter p post) = 0" by simp
  then have "filter p pre = []" and "filter p post = []" by simp_all
  then show ?thesis by (auto simp: filter_empty_conv)
qed

lemma search_none:
  assumes "\<forall>b\<in>set (books s). \<not> String_includes (title b) q \<and>
             \<not> String_includes (author b) q \<and> Book.ISBN b \<noteq> q"
  shows "search q s =
           ([], s, [ConsoleLog (''[INFO] B'' @ [CHR 0xFA] @ ''squeda para '' @ [CHR 0x22] @
                                q @ [CHR 0x22] @ '' no produjo resultados.'')])"
proof -
  have "filter (\<lambda>book. String_includes (title book) q \<or> String_includes (author book) q \<or>
                         Book.ISBN book = q) (books s) = []"
    using assms by (simp add: filter_empty_conv)
  then show ?thesis by (simp add: search_def)
qed

lemma search_empty_query: "fst (search [] s) = books s"
  by (simp add: search_def Let_def String_includes_empty)

lemma removeObserver_absent:
  assumes "u \<notin> set (observers s)"
  shows "removeObserver u s = (s, [])"
proof -
  have "indexOf u (observers s) = - 1"
    using assms by (auto simp: indexOf_def findIndex_none_iff)
  then show ?thesis by (simp add: removeObserver_def)
qed

section \<open>Preservation of the uniqueness of ISBNs\<close>

lemma removeObserver_total: "\<exists>obs. removeObserver u s = (s\<lparr>observers := obs\<rparr>, [])"
proof (cases "indexOf u (observers s) = - 1")
  case True
  then have "removeObserver u s = (s\<lparr>observers := observers s\<rparr>, [])"
    by (simp add: removeObserver_def)
  then show ?thesis by blast
next
  case False
  then have "removeObserver u s =
      (s\<lparr>observers := snd (Array_splice (observers s) (nat (indexOf u (observers s))) 1)\<rparr>, [])"
    by (simp add: removeObserver_def)
  then show ?thesis by blast
qed

lemma removeBook_total:
  assumes "distinct (map Book.ISBN (books s))"
  shows "\<exists>s1 out. removeBook i s = Inr (s1, out) \<and> distinct (map Book.ISBN (books s1))"
proof (cases "\<exists>b\<in>set (books s). Book.ISBN b = i")
  case False
  then have "\<forall>b\<in>set (books s). Book.ISBN b \<noteq> i" by blast
  from removeBook_absent [OF this] assms show ?thesis by simp
next
  case True
  then obtain pre b post where d: "books s = pre @ b # post" "Book.ISBN b = i"
      "\<forall>x\<in>set pre. Book.ISBN x \<noteq> i"
    using first_match [of "books s" "\<lambda>b. Book.ISBN b = i"] by blast
  from assms d(1) have "distinct (map Book.ISBN (pre @ post))" by simp
  with removeBook_at [OF d] show ?thesis by simp
qed

lemma returnBook_total: "\<exists>s1 out. returnBook dts i u s = Inr (s1, out) \<and> books s1 = books s"
proof (cases "\<exists>l\<in>set (loans s). Loan.ISBN l = i \<and> userID l = u")
  case False
  then have "\<forall>l\<in>set (loans s). \<not> (Loan.ISBN l = i \<and> userID l = u)" by blast
  from returnBook_absent [OF this, of dts] show ?thesis by simp
next
  case True
  then obtain pre l post where d: "loans s = pre @ l # post" "Loan.ISBN l = i \<and> userID l = u"
      "\<forall>x\<in>set pre. \<not> (Loan.ISBN x = i \<and> userID x = u)"
    using first_match [of "loans s" "\<lambda>l. Loan.ISBN l = i \<and> userID l = u"] by blast
  from returnBook_at [OF d, of dts] show ?thesis by simp
qed

lemma addBook_distinct:
  assumes "distinct (map Book.ISBN (books s))"
  shows "distinct (map Book.ISBN (books (fst (addBook t a i s))))"
proof (cases "\<exists>b\<in>set (books s). Book.ISBN b = i")
  case True
  with assms show ?thesis by (simp add: addBook_duplicate)
next
  case False
  then have "\<forall>b\<in>set (books s). Book.ISBN b \<noteq> i" by blast
  from addBook_fresh [OF this] assms False show ?thesis by (auto simp: image_iff)
qed

lemma loanBook_books: "books (fst (loanBook now i u s)) = books s"
  by (simp add: loanBook_def sendEmail_def split: option.split)

lemma step_distinct:
  assumes "distinct (map Book.ISBN (books s))"
  shows "\<exists>s1 out. step dts c s = Inr (s1, out) \<and> distinct (map Book.ISBN (books s1))"
proof (cases c)
  case (AddObserver u)
  with assms show ?thesis by (simp add: addObserver_def)
next
  case (RemoveObserver u)
  obtain obs where "removeObserver u s = (s\<lparr>observers := obs\<rparr>, [])"
    using removeObserver_total by blast
  with RemoveObserver assms show ?thesis by simp
next
  case (NotifyObservers t)
  with assms show ?thesis by (simp add: notifyObservers_def)
next
  case (AddBook t a i)
  obtain s1 out where eq: "addBook t a i s = (s1, out)" by (cases "addBook t a i s")
  with addBook_distinct [OF assms, of t a i] AddBook show ?thesis by simp
next
  case (RemoveBook i)
  with removeBook_total [OF assms, of i] show ?thesis by simp
next
  case (SearchByTitle t)
  with assms show ?thesis by (simp add: searchByTitle_def)
next
  case (SearchByAuthor a)
  with assms show ?thesis by (simp add: searchByAuthor_def)
next
  case (SearchByISBN i)
  with assms show ?thesis by (simp add: searchByISBN_def)
next
  case (Search q)
  with assms show ?thesis by (simp add: search_def Let_def)
next
  case (LoanBook now i u)
  obtain s1 out where eq: "loanBook now i u s = (s1, out)" by (cases "loanBook now i u s")
  with loanBook_books [of now i u s] LoanBook assms show ?thesis by simp
next
  case (ReturnBook i u)
  with returnBook_total [of dts i u s] assms show ?thesis by auto
next
  case PrintAllBooks
  with assms show ?thesis by (simp add: printAllBooks_def)
next
  case PrintAllLoans
  with assms show ?thesis by (simp add: printAllLoans_def)
qed

lemma run_distinct:
  assumes "distinct (map Book.ISBN (books s))"
  shows "\<exists>s1 out. run dts cs s = Inr (s1, out) \<and> distinct (map Book.ISBN (books s1))"
  using assms
proof (induction cs arbitrary: s)
  case Nil
  then show ?case by simp
next
  case (Cons c cs)
  from step_distinct [OF Cons.prems, of dts c]
  obtain s1 out1 where s1: "step dts c s = Inr (s1, out1)" "distinct (map Book.ISBN (books s1))"
    by blast
  from Cons.IH [OF s1(2)]
  obtain s2 out2 where s2: "run dts cs s1 = Inr (s2, out2)" "distinct (map Book.ISBN (books s2))"
    by blast
  from s1 s2 show ?case by simp
qed

lemma distinct_count_le_1:
  assumes "distinct (map f xs)"
  shows "length (filter (\<lambda>x. f x = k) xs) \<le> 1"
  using assms by (induction xs) (auto simp: filter_empty_conv image_iff)

section \<open>The claims\<close>

text \<open>
  Claim C1 (the code departs from it). The claim: when \<open>addBook\<close> succeeds, the new
  book is inserted and every registered listener receives an update carrying the title,
  in registration order. The book is inserted (\<open>addBook_fresh\<close>), but \<open>addBook\<close> never
  calls \<open>notifyObservers\<close>: with the listener Ana registered, adding ``1984'' makes the
  single console call of \<open>addBook\<close> itself, while \<open>notifyObservers\<close>, had it been called,
  would have made Ana's \<open>update\<close> print its line.
\<close>

theorem addBook_skips_observers:
  "addBook ''1984'' ''George Orwell'' ''987654321'' (library_gatsby\<lparr>observers := [ana]\<rparr>) =
     (library_gatsby\<lparr>observers := [ana],
        books := [gatsby, \<lparr>title = ''1984'', author = ''George Orwell'', ISBN = ''987654321''\<rparr>]\<rparr>,
      [ConsoleLog ''[INFO] Libro agregado: 1984 (ISBN: 987654321)''])
   \<and> snd (notifyObservers ''1984'' (library_gatsby\<lparr>observers := [ana]\<rparr>)) =
       [ConsoleLog ''Ana ha sido notificado sobre el nuevo libro: 1984'']"
  by (simp add: addBook_def notifyObservers_def forEach_def User_update_def
      library_gatsby_def gatsby_def ana_def)

text \<open>
  Claim C2 (the code departs from it). The claim: a successful \<open>loanBook\<close> or
  \<open>returnBook\<close> invokes \<open>sendEmail\<close> of the injected email service before it returns.
  The private method \<open>sendEmail\<close> of \<open>LibraryManager\<close> prints by itself and never reads
  the field \<open>emailService\<close>: lending the Gatsby to user01 makes the two console calls
  below, and the call that the injected \<open>ConsoleEmailService\<close> would have made is not
  among them; returning it makes two console calls of the same kind.
\<close>

theorem loanBook_bypasses_emailService:
  "loanBook 0 ''123456789'' ''user01'' library_gatsby =
     (library_gatsby\<lparr>loans := [loan_user01]\<rparr>,
      [ConsoleLog (''[INFO] Pr'' @ [CHR 0xE9] @ ''stamo registrado: El Gran Gatsby a user01''),
       ConsoleLog ''Enviando email a user01: Has solicitado el libro El Gran Gatsby''])
   \<and> IEmailService_sendEmail (emailService library_gatsby) ''user01''
       ''Has solicitado el libro El Gran Gatsby'' =
       [ConsoleLog ''[INFO] Enviando email a user01: Has solicitado el libro El Gran Gatsby'']
   \<and> returnBook (\<lambda>d. ''1970-01-01'') ''123456789'' ''user01''
        (library_gatsby\<lparr>loans := [loan_user01]\<rparr>) =
       Inr (library_gatsby,
            [ConsoleLog (''[INFO] Devoluci'' @ [CHR 0xF3] @
                         ''n registrada: 1970-01-01: Usuario user01, Libro ISBN 123456789''),
             ConsoleLog (''Enviando email a user01: Has devuelto el libro con ISBN 123456789. '' @
                         [CHR 0xA1] @ ''Gracias!'')])"
proof (intro conjI)
  show "loanBook 0 ''123456789'' ''user01'' library_gatsby =
     (library_gatsby\<lparr>loans := [loan_user01]\<rparr>,
      [ConsoleLog (''[INFO] Pr'' @ [CHR 0xE9] @ ''stamo registrado: El Gran Gatsby a user01''),
       ConsoleLog ''Enviando email a user01: Has solicitado el libro El Gran Gatsby''])"
    by (simp add: loanBook_def sendEmail_def library_gatsby_def gatsby_def loan_user01_def)
next
  show "IEmailService_sendEmail (emailService library_gatsby) ''user01''
       ''Has solicitado el libro El Gran Gatsby'' =
       [ConsoleLog ''[INFO] Enviando email a user01: Has solicitado el libro El Gran Gatsby'']"
    by (simp add: library_gatsby_def)
next
  show "returnBook (\<lambda>d. ''1970-01-01'') ''123456789'' ''user01''
        (library_gatsby\<lparr>loans := [loan_user01]\<rparr>) =
       Inr (library_gatsby,
            [ConsoleLog (''[INFO] Devoluci'' @ [CHR 0xF3] @
                         ''n registrada: 1970-01-01: Usuario user01, Libro ISBN 123456789''),
             ConsoleLog (''Enviando email a user01: Has devuelto el libro con ISBN 123456789. '' @
                         [CHR 0xA1] @ ''Gracias!'')])"
    by (simp add: returnBook_def sendEmail_def Array_splice_def library_gatsby_def gatsby_def
        loan_user01_def)
qed

text \<open>
  Claim C3. For every sequence of calls from the empty catalog, and at every point of it
  (after every prefix \<open>take n cs\<close>), no call has thrown and the book collection holds at
  most one record for each ISBN.
\<close>

theorem isbn_unique_invariant:
  "\<exists>s out. run dts (take n cs) (LibraryManager_new svc) = Inr (s, out) \<and>
      (\<forall>i. length (filter (\<lambda>b. Book.ISBN b = i) (books s)) \<le> 1)"
proof -
  have "distinct (map Book.ISBN (books (LibraryManager_new svc)))"
    by (simp add: LibraryManager_new_def)
  from run_distinct [OF this, of dts "take n cs"]
  obtain s out where r: "run dts (take n cs) (LibraryManager_new svc) = Inr (s, out)"
      "distinct (map Book.ISBN (books s))"
    by blast
  from r(2) have "\<forall>i. length (filter (\<lambda>b. Book.ISBN b = i) (books s)) \<le> 1"
    by (blast intro: distinct_count_le_1)
  with r(1) show ?thesis by blast
qed

theorem isbn_unique_invariant_witness:
  "\<exists>s out. run (\<lambda>d. ''1970-01-01'')
       (take 2 [AddBook ''El Gran Gatsby'' ''F. Scott Fitzgerald'' ''123456789'',
                AddBook ''1984'' ''George Orwell'' ''123456789'',
                ReturnBook ''987654321'' ''user01''])
       (LibraryManager_new ConsoleEmailService) = Inr (s, out) \<and>
     books s = [gatsby] \<and>
     (\<forall>i. length (filter (\<lambda>b. Book.ISBN b = i) (books s)) \<le> 1)"
proof -
  let ?r = "run (\<lambda>d. ''1970-01-01'')
       (take 2 [AddBook ''El Gran Gatsby'' ''F. Scott Fitzgerald'' ''123456789'',
                AddBook ''1984'' ''George Orwell'' ''123456789'',
                ReturnBook ''987654321'' ''user01''])
       (LibraryManager_new ConsoleEmailService)"
  from isbn_unique_invariant [of "\<lambda>d. ''1970-01-01''" 2
      "[AddBook ''El Gran Gatsby'' ''F. Scott Fitzgerald'' ''123456789'',
        AddBook ''1984'' ''George Orwell'' ''123456789'',
        ReturnBook ''987654321'' ''user01'']" ConsoleEmailService]
  obtain s out where r: "?r = Inr (s, out)"
    and u: "\<forall>i. length (filter (\<lambda>b. Book.ISBN b = i) (books s)) \<le> 1"
    by blast
  have "\<exists>out. ?r = Inr (library_gatsby, out)"
    by (simp add: LibraryManager_new_def addBook_def library_gatsby_def gatsby_def)
  with r have "s = library_gatsby" by auto
  then have "books s = [gatsby]" by (simp add: library_gatsby_def)
  with r u show ?thesis by blast
qed

text \<open>
  Claim C4. If the catalog already holds a book with ISBN \<open>i\<close>, then
  \<open>addBook t2 a2 i\<close> makes one \<open>console.error\<close> call and leaves the whole state as it
  was; in particular the record found for \<open>i\<close> is the one stored before.
\<close>

theorem addBook_duplicate_rejected: 
  assumes "\<exists>b\<in>set (books s). Book.ISBN b = i"
  shows "addBook t2 a2 i s =
           (s, [ConsoleError (''[ERROR] El libro con ISBN '' @ i @ '' ya existe en la biblioteca.'')])
         \<and> fst (searchByISBN i (fst (addBook t2 a2 i s))) = fst (searchByISBN i s)"
  using assms by (simp add: addBook_duplicate)

theorem addBook_duplicate_rejected_witness:
  "(\<exists>b\<in>set (books library_gatsby). Book.ISBN b = ''123456789'')
   \<and> addBook ''1984'' ''George Orwell'' ''123456789'' library_gatsby =
       (library_gatsby,
        [ConsoleError ''[ERROR] El libro con ISBN 123456789 ya existe en la biblioteca.''])
   \<and> fst (searchByISBN ''123456789''
            (fst (addBook ''1984'' ''George Orwell'' ''123456789'' library_gatsby))) = Some gatsby"
proof -
  have h: "\<exists>b\<in>set (books library_gatsby). Book.ISBN b = ''123456789''"
    by (simp add: library_gatsby_def gatsby_def)
  have f: "fst (searchByISBN ''123456789'' library_gatsby) = Some gatsby"
    by (simp add: searchByISBN_def library_gatsby_def gatsby_def)
  from addBook_duplicate_rejected [OF h, of "''1984''" "''George Orwell''"] h f show ?thesis by simp
qed

text \<open>
  Claim C5. \<open>returnBook i u\<close>: with no loan of \<open>i\<close> to \<open>u\<close> it warns and changes
  nothing; otherwise it removes the first such loan and no other, logs the return, and
  then either announces the thank-you message (the book is still in the catalog) or makes
  a \<open>console.error\<close> call instead (the book is gone), the removal standing in both cases;
  and when exactly one such loan is outstanding, a second call after the first is a
  warning that changes nothing.
\<close>

theorem returnBook_first_match:
  "(\<not> (\<exists>l\<in>set (loans s). Loan.ISBN l = i \<and> userID l = u) \<longrightarrow>
      returnBook dts i u s =
        Inr (s, [ConsoleWarn (''[WARNING] Intento de devoluci'' @ [CHR 0xF3] @
                              ''n de un libro no prestado: ISBN '' @ i @ '', Usuario '' @ u)]))
   \<and> ((\<exists>l\<in>set (loans s). Loan.ISBN l = i \<and> userID l = u) \<longrightarrow>
      (\<exists>pre l post. loans s = pre @ l # post \<and> Loan.ISBN l = i \<and> userID l = u \<and>
         (\<forall>x\<in>set pre. \<not> (Loan.ISBN x = i \<and> userID x = u)) \<and>
         returnBook dts i u s =
           Inr (s\<lparr>loans := pre @ post\<rparr>,
                ConsoleLog (''[INFO] Devoluci'' @ [CHR 0xF3] @ ''n registrada: '' @
                            dts (date l) @ '': Usuario '' @ u @ '', Libro ISBN '' @ i) #
                (if \<exists>b\<in>set (books s). Book.ISBN b = i
                 then [ConsoleLog (''Enviando email a '' @ u @ '': '' @
                                   ''Has devuelto el libro con ISBN '' @ i @ ''. '' @
                                   [CHR 0xA1] @ ''Gracias!'')]
                 else [ConsoleError (''[ERROR] El libro con ISBN '' @ i @ '' no se encontr'' @
                                     [CHR 0xF3] @ '' en la biblioteca.'')]))))
   \<and> (length (filter (\<lambda>l. Loan.ISBN l = i \<and> userID l = u) (loans s)) = 1 \<longrightarrow>
      (\<exists>s1 out1. returnBook dts i u s = Inr (s1, out1) \<and>
         returnBook dts i u s1 =
           Inr (s1, [ConsoleWarn (''[WARNING] Intento de devoluci'' @ [CHR 0xF3] @
                                  ''n de un libro no prestado: ISBN '' @ i @ '', Usuario '' @ u)])))"
proof (intro conjI impI)
  assume "\<not> (\<exists>l\<in>set (loans s). Loan.ISBN l = i \<and> userID l = u)"
  then have "\<forall>l\<in>set (loans s). \<not> (Loan.ISBN l = i \<and> userID l = u)" by blast
  then show "returnBook dts i u s =
        Inr (s, [ConsoleWarn (''[WARNING] Intento de devoluci'' @ [CHR 0xF3] @
                              ''n de un libro no prestado: ISBN '' @ i @ '', Usuario '' @ u)])"
    by (rule returnBook_absent)
next
  assume "\<exists>l\<in>set (loans s). Loan.ISBN l = i \<and> userID l = u"
  then obtain pre l post where d: "loans s = pre @ l # post" "Loan.ISBN l = i \<and> userID l = u"
      "\<forall>x\<in>set pre. \<not> (Loan.ISBN x = i \<and> userID x = u)"
    using first_match [of "loans s" "\<lambda>l. Loan.ISBN l = i \<and> userID l = u"] by blast
  from returnBook_at [OF d, of dts] d
  show "\<exists>pre l post. loans s = pre @ l # post \<and> Loan.ISBN l = i \<and> userID l = u \<and>
         (\<forall>x\<in>set pre. \<not> (Loan.ISBN x = i \<and> userID x = u)) \<and>
         returnBook dts i u s =
           Inr (s\<lparr>loans := pre @ post\<rparr>,
                ConsoleLog (''[INFO] Devoluci'' @ [CHR 0xF3] @ ''n registrada: '' @
                            dts (date l) @ '': Usuario '' @ u @ '', Libro ISBN '' @ i) #
                (if \<exists>b\<in>set (books s). Book.ISBN b = i
                 then [ConsoleLog (''Enviando email a '' @ u @ '': '' @
                                   ''Has devuelto el libro con ISBN '' @ i @ ''. '' @
                                   [CHR 0xA1] @ ''Gracias!'')]
                 else [ConsoleError (''[ERROR] El libro con ISBN '' @ i @ '' no se encontr'' @
                                     [CHR 0xF3] @ '' en la biblioteca.'')]))"
    by (intro exI conjI) (rule d(1), simp, simp, rule d(3), assumption)
next
  let ?p = "\<lambda>l. Loan.ISBN l = i \<and> userID l = u"
  assume one: "length (filter ?p (loans s)) = 1"
  then have "filter ?p (loans s) \<noteq> []" by auto
  then have "\<exists>l\<in>set (loans s). ?p l" by (simp add: filter_empty_conv)
  then obtain pre l post where d: "loans s = pre @ l # post" "?p l" "\<forall>x\<in>set pre. \<not> ?p x"
    using first_match [of "loans s" ?p] by blast
  from one d(1) have "length (filter ?p (pre @ l # post)) = 1" by simp
  from single_match [of ?p, OF this d(2)] have rest: "\<forall>x\<in>set (pre @ post). \<not> ?p x" .
  let ?s1 = "s\<lparr>loans := pre @ post\<rparr>"
  have "loans ?s1 = pre @ post" by simp
  with rest have "\<forall>x\<in>set (loans ?s1). \<not> ?p x" by simp
  note r2 = returnBook_absent [OF this, of dts]
  note r1 = returnBook_at [OF d, of dts]
  show "\<exists>s1 out1. returnBook dts i u s = Inr (s1, out1) \<and>
         returnBook dts i u s1 =
           Inr (s1, [ConsoleWarn (''[WARNING] Intento de devoluci'' @ [CHR 0xF3] @
                                  ''n de un libro no prestado: ISBN '' @ i @ '', Usuario '' @ u)])"
    by (intro exI conjI) (rule r1, rule r2)
qed

theorem returnBook_first_match_witness:
  "returnBook (\<lambda>d. ''1970-01-01'') ''987654321'' ''user01'' library_gatsby =
     Inr (library_gatsby,
          [ConsoleWarn (''[WARNING] Intento de devoluci'' @ [CHR 0xF3] @
                        ''n de un libro no prestado: ISBN 987654321, Usuario user01'')])
   \<and> returnBook (\<lambda>d. ''1970-01-01'') ''123456789'' ''user01''
        (library_gatsby\<lparr>books := [], loans := [loan_user01]\<rparr>) =
       Inr (library_gatsby\<lparr>books := [], loans := []\<rparr>,
            [ConsoleLog (''[INFO] Devoluci'' @ [CHR 0xF3] @
                         ''n registrada: 1970-01-01: Usuario user01, Libro ISBN 123456789''),
             ConsoleError (''[ERROR] El libro con ISBN 123456789 no se encontr'' @ [CHR 0xF3] @
                           '' en la biblioteca.'')])
   \<and> (\<exists>s1 out1. returnBook (\<lambda>d. ''1970-01-01'') ''123456789'' ''user01''
                    (library_gatsby\<lparr>loans := [loan_user01]\<rparr>) = Inr (s1, out1) \<and>
          returnBook (\<lambda>d. ''1970-01-01'') ''123456789'' ''user01'' s1 =
            Inr (s1, [ConsoleWarn (''[WARNING] Intento de devoluci'' @ [CHR 0xF3] @
                        ''n de un libro no prestado: ISBN 123456789, Usuario user01'')]))"
proof -
  let ?dts = "\<lambda>d::Date. ''1970-01-01''"
  have l: "loans library_gatsby = []" and b: "books library_gatsby = [gatsby]"
    by (simp_all add: library_gatsby_def)
  have li: "Loan.ISBN loan_user01 = ''123456789''" and lu: "userID loan_user01 = ''user01''"
    and ld: "date loan_user01 = 0"
    by (simp_all add: loan_user01_def)
  from returnBook_first_match [of library_gatsby "''987654321''" "''user01''" ?dts] l
  have 1: "returnBook ?dts ''987654321'' ''user01'' library_gatsby =
     Inr (library_gatsby,
          [ConsoleWarn (''[WARNING] Intento de devoluci'' @ [CHR 0xF3] @
                        ''n de un libro no prestado: ISBN 987654321, Usuario user01'')])"
    by simp
  from returnBook_first_match [of "library_gatsby\<lparr>books := [], loans := [loan_user01]\<rparr>" "''123456789''"
      "''user01''" ?dts] li lu
  obtain pre l1 post where d: "[loan_user01] = pre @ l1 # post"
    and r: "returnBook ?dts ''123456789'' ''user01''
              (library_gatsby\<lparr>books := [], loans := [loan_user01]\<rparr>) =
            Inr (library_gatsby\<lparr>books := [], loans := pre @ post\<rparr>,
                 [ConsoleLog (''[INFO] Devoluci'' @ [CHR 0xF3] @ ''n registrada: '' @
                              ?dts (date l1) @ '': Usuario '' @ ''user01'' @ '', Libro ISBN '' @
                              ''123456789''),
                  ConsoleError (''[ERROR] El libro con ISBN '' @ ''123456789'' @
                                '' no se encontr'' @ [CHR 0xF3] @ '' en la biblioteca.'')])"
    by auto
  from d have "pre = []" "l1 = loan_user01" "post = []" by (auto simp: Cons_eq_append_conv)
  with r have 2: "returnBook ?dts ''123456789'' ''user01''
        (library_gatsby\<lparr>books := [], loans := [loan_user01]\<rparr>) =
       Inr (library_gatsby\<lparr>books := [], loans := []\<rparr>,
            [ConsoleLog (''[INFO] Devoluci'' @ [CHR 0xF3] @
                         ''n registrada: 1970-01-01: Usuario user01, Libro ISBN 123456789''),
             ConsoleError (''[ERROR] El libro con ISBN 123456789 no se encontr'' @ [CHR 0xF3] @
                           '' en la biblioteca.'')])"
    by simp
  from returnBook_first_match [of "library_gatsby\<lparr>loans := [loan_user01]\<rparr>" "''123456789''" "''user01''" ?dts]
    li lu
  have 3: "\<exists>s1 out1. returnBook ?dts ''123456789'' ''user01''
                    (library_gatsby\<lparr>loans := [loan_user01]\<rparr>) = Inr (s1, out1) \<and>
          returnBook ?dts ''123456789'' ''user01'' s1 =
            Inr (s1, [ConsoleWarn (''[WARNING] Intento de devoluci'' @ [CHR 0xF3] @
                        ''n de un libro no prestado: ISBN 123456789, Usuario user01'')])"
    by simp
  from 1 2 3 show ?thesis by (intro conjI)
qed

text \<open>
  Claim C6 (amended). As stated the claim fails for the empty query: the empty string is
  a substring of every title, so \<open>search\<close> with the empty query returns every book.
\<close>

theorem search_empty_query_counterexample: "fst (search [] library_gatsby) \<noteq> []"
  by (simp add: search_def library_gatsby_def Let_def String_includes_empty)

text \<open>
  Claim C6, as amended. A query that is a substring of no title and of no author and
  equals no ISBN returns the empty sequence, with one informational console call and no
  exception; the empty query returns all the books of the catalog, in catalog order.
\<close>

theorem search_no_match_or_empty_query:
  "((\<forall>b\<in>set (books s). (\<nexists>p r. title b = p @ q @ r) \<and> (\<nexists>p r. author b = p @ q @ r) \<and>
        Book.ISBN b \<noteq> q) \<longrightarrow>
      search q s =
        ([], s, [ConsoleLog (''[INFO] B'' @ [CHR 0xFA] @ ''squeda para '' @ [CHR 0x22] @
                             q @ [CHR 0x22] @ '' no produjo resultados.'')]))
   \<and> fst (search [] s) = books s"
proof (intro conjI impI)
  assume "\<forall>b\<in>set (books s). (\<nexists>p r. title b = p @ q @ r) \<and> (\<nexists>p r. author b = p @ q @ r) \<and>
        Book.ISBN b \<noteq> q"
  then have "\<forall>b\<in>set (books s). \<not> String_includes (title b) q \<and>
             \<not> String_includes (author b) q \<and> Book.ISBN b \<noteq> q"
    by (simp add: String_includes_iff)
  then show "search q s =
        ([], s, [ConsoleLog (''[INFO] B'' @ [CHR 0xFA] @ ''squeda para '' @ [CHR 0x22] @
                             q @ [CHR 0x22] @ '' no produjo resultados.'')])"
    by (rule search_none)
next
  show "fst (search [] s) = books s" by (rule search_empty_query)
qed

theorem search_no_match_or_empty_query_witness:
  "search ''Quijote'' library_gatsby =
     ([], library_gatsby,
      [ConsoleLog (''[INFO] B'' @ [CHR 0xFA] @ ''squeda para '' @ [CHR 0x22] @
                   ''Quijote'' @ [CHR 0x22] @ '' no produjo resultados.'')])
   \<and> fst (search [] library_gatsby) = [gatsby]"
proof -
  have h: "\<forall>b\<in>set (books library_gatsby).
             (\<nexists>p r. title b = p @ ''Quijote'' @ r) \<and> (\<nexists>p r. author b = p @ ''Quijote'' @ r) \<and>
             Book.ISBN b \<noteq> ''Quijote''"
  proof -
    have "\<not> String_includes ''El Gran Gatsby'' ''Quijote''"
      and "\<not> String_includes ''F. Scott Fitzgerald'' ''Quijote''"
      by simp_all
    then have "(\<nexists>p r. ''El Gran Gatsby'' = p @ ''Quijote'' @ r)"
      and "(\<nexists>p r. ''F. Scott Fitzgerald'' = p @ ''Quijote'' @ r)"
      unfolding String_includes_iff by blast+
    then show ?thesis by (simp add: library_gatsby_def gatsby_def)
  qed
  have b: "books library_gatsby = [gatsby]" by (simp add: library_gatsby_def)
  from search_no_match_or_empty_query [of library_gatsby "''Quijote''"] h b show ?thesis by simp
qed

text \<open>
  Claim C7 (amended). As stated the claim fails: \<open>addObserver\<close> pushes without looking,
  so registering the same listener twice leaves it in the registry twice.
\<close>

theorem addObserver_twice_counterexample:
  "fst (addObserver ana (fst (addObserver ana library_gatsby))) \<noteq>
   fst (addObserver ana library_gatsby)"
  by (simp add: addObserver_def library_gatsby_def)

text \<open>
  Claim C7, as amended. \<open>addObserver\<close> appends the listener to the registry on every
  call, so after registering the same listener twice the registry ends with two entries
  of it; \<open>removeObserver\<close> of a listener that is not registered changes nothing and
  prints nothing.
\<close>

theorem observer_registry_append:
  "observers (fst (addObserver u (fst (addObserver u s)))) = observers s @ [u, u]
   \<and> (u \<notin> set (observers s) \<longrightarrow> removeObserver u s = (s, []))"
  by (simp add: addObserver_def removeObserver_absent)

theorem observer_registry_append_witness:
  "ana \<notin> set (observers library_gatsby)
   \<and> observers (fst (addObserver ana (fst (addObserver ana library_gatsby)))) = [ana, ana]
   \<and> removeObserver ana library_gatsby = (library_gatsby, [])"
proof -
  have h: "ana \<notin> set (observers library_gatsby)" by (simp add: library_gatsby_def)
  have o: "observers library_gatsby = []" by (simp add: library_gatsby_def)
  from observer_registry_append [of ana library_gatsby] h o show ?thesis by simp
qed

text \<open>
  Claim C8. \<open>loanBook i u\<close>: when no book has ISBN \<open>i\<close> it makes one \<open>console.warn\<close>
  call and nothing else, the state as it was; when a book has ISBN \<open>i\<close> it appends the
  one loan \<open>(i, u, now)\<close> at the end of the loan collection, whatever loans are
  outstanding, and changes nothing else.
\<close>

theorem loanBook_unknown_or_append:
  "(\<not> (\<exists>b\<in>set (books s). Book.ISBN b = i) \<longrightarrow>
      loanBook now i u s =
        (s, [ConsoleWarn (''[WARNING] Intento de pr'' @ [CHR 0xE9] @
                          ''stamo de un libro inexistente con ISBN: '' @ i)]))
   \<and> ((\<exists>b\<in>set (books s). Book.ISBN b = i) \<longrightarrow>
      (\<exists>out. loanBook now i u s =
         (s\<lparr>loans := loans s @ [\<lparr>ISBN = i, userID = u, date = now\<rparr>]\<rparr>, out)))"
proof (intro conjI impI)
  assume "\<not> (\<exists>b\<in>set (books s). Book.ISBN b = i)"
  then show "loanBook now i u s =
        (s, [ConsoleWarn (''[WARNING] Intento de pr'' @ [CHR 0xE9] @
                          ''stamo de un libro inexistente con ISBN: '' @ i)])"
    by (simp add: loanBook_absent)
next
  assume "\<exists>b\<in>set (books s). Book.ISBN b = i"
  then obtain pre b post where d: "books s = pre @ b # post" "Book.ISBN b = i"
      "\<forall>x\<in>set pre. Book.ISBN x \<noteq> i"
    using first_match [of "books s" "\<lambda>b. Book.ISBN b = i"] by blast
  from loanBook_at [OF d]
  show "\<exists>out. loanBook now i u s =
         (s\<lparr>loans := loans s @ [\<lparr>ISBN = i, userID = u, date = now\<rparr>]\<rparr>, out)"
    by blast
qed

theorem loanBook_unknown_or_append_witness:
  "loanBook 0 ''987654321'' ''user01'' library_gatsby =
     (library_gatsby,
      [ConsoleWarn (''[WARNING] Intento de pr'' @ [CHR 0xE9] @
                    ''stamo de un libro inexistente con ISBN: 987654321'')])
   \<and> fst (loanBook 5 ''123456789'' ''user01'' (library_gatsby\<lparr>loans := [loan_user01]\<rparr>)) =
       library_gatsby\<lparr>loans := [loan_user01,
                                  \<lparr>ISBN = ''123456789'', userID = ''user01'', date = 5\<rparr>]\<rparr>"
proof -
  have b: "books library_gatsby = [gatsby]" by (simp add: library_gatsby_def)
  have i: "Book.ISBN gatsby = ''123456789''" by (simp add: gatsby_def)
  from loanBook_unknown_or_append [of library_gatsby "''987654321''" 0 "''user01''"] b i
  have 1: "loanBook 0 ''987654321'' ''user01'' library_gatsby =
     (library_gatsby,
      [ConsoleWarn (''[WARNING] Intento de pr'' @ [CHR 0xE9] @
                    ''stamo de un libro inexistente con ISBN: 987654321'')])"
    by simp
  from loanBook_unknown_or_append [of "library_gatsby\<lparr>loans := [loan_user01]\<rparr>" "''123456789''" 5 "''user01''"] b i
  have 2: "fst (loanBook 5 ''123456789'' ''user01'' (library_gatsby\<lparr>loans := [loan_user01]\<rparr>)) =
       library_gatsby\<lparr>loans := [loan_user01,
                                  \<lparr>ISBN = ''123456789'', userID = ''user01'', date = 5\<rparr>]\<rparr>"
    by auto
  from 1 2 show ?thesis by blast
qed

text \<open>
  Claim C9. \<open>removeBook i\<close>: when no book has ISBN \<open>i\<close> it makes one \<open>console.warn\<close>
  call and changes nothing; otherwise it removes the first book with that ISBN, keeps all
  the others in their order, and makes one \<open>console.log\<close> call that names the title of
  the removed book.
\<close>

theorem removeBook_unknown_or_first:
  "(\<not> (\<exists>b\<in>set (books s). Book.ISBN b = i) \<longrightarrow>
      removeBook i s =
        Inr (s, [ConsoleWarn (''[WARNING] Intento de eliminar un libro inexistente con ISBN: '' @ i)]))
   \<and> ((\<exists>b\<in>set (books s). Book.ISBN b = i) \<longrightarrow>
      (\<exists>pre b post. books s = pre @ b # post \<and> Book.ISBN b = i \<and>
         (\<forall>x\<in>set pre. Book.ISBN x \<noteq> i) \<and>
         removeBook i s =
           Inr (s\<lparr>books := pre @ post\<rparr>,
                [ConsoleLog (''[INFO] Libro eliminado: '' @ title b @ '' (ISBN: '' @ i @ '')'')])))"
proof (intro conjI impI)
  assume "\<not> (\<exists>b\<in>set (books s). Book.ISBN b = i)"
  then show "removeBook i s =
        Inr (s, [ConsoleWarn (''[WARNING] Intento de eliminar un libro inexistente con ISBN: '' @ i)])"
    by (simp add: removeBook_absent)
next
  assume "\<exists>b\<in>set (books s). Book.ISBN b = i"
  then obtain pre b post where d: "books s = pre @ b # post" "Book.ISBN b = i"
      "\<forall>x\<in>set pre. Book.ISBN x \<noteq> i"
    using first_match [of "books s" "\<lambda>b. Book.ISBN b = i"] by blast
  from removeBook_at [OF d] d
  show "\<exists>pre b post. books s = pre @ b # post \<and> Book.ISBN b = i \<and>
         (\<forall>x\<in>set pre. Book.ISBN x \<noteq> i) \<and>
         removeBook i s =
           Inr (s\<lparr>books := pre @ post\<rparr>,
                [ConsoleLog (''[INFO] Libro eliminado: '' @ title b @ '' (ISBN: '' @ i @ '')'')])"
    by blast
qed

theorem removeBook_unknown_or_first_witness:
  "removeBook ''987654321'' library_gatsby =
     Inr (library_gatsby,
          [ConsoleWarn ''[WARNING] Intento de eliminar un libro inexistente con ISBN: 987654321''])
   \<and> removeBook ''123456789'' library_gatsby =
       Inr (library_gatsby\<lparr>books := []\<rparr>,
            [ConsoleLog ''[INFO] Libro eliminado: El Gran Gatsby (ISBN: 123456789)''])"
proof -
  have b: "books library_gatsby = [gatsby]" by (simp add: library_gatsby_def)
  have i: "Book.ISBN gatsby = ''123456789''" and t: "title gatsby = ''El Gran Gatsby''"
    by (simp_all add: gatsby_def)
  from removeBook_unknown_or_first [of library_gatsby "''987654321''"] b i
  have 1: "removeBook ''987654321'' library_gatsby =
     Inr (library_gatsby,
          [ConsoleWarn ''[WARNING] Intento de eliminar un libro inexistente con ISBN: 987654321''])"
    by simp
  from removeBook_unknown_or_first [of library_gatsby "''123456789''"] b i
  obtain pre b1 post where d: "[gatsby] = pre @ b1 # post"
    and r: "removeBook ''123456789'' library_gatsby =
           Inr (library_gatsby\<lparr>books := pre @ post\<rparr>,
                [ConsoleLog (''[INFO] Libro eliminado: '' @ title b1 @ '' (ISBN: '' @
                             ''123456789'' @ '')'')])"
    by auto
  from d have "pre = []" "b1 = gatsby" "post = []" by (auto simp: Cons_eq_append_conv)
  with r t have 2: "removeBook ''123456789'' library_gatsby =
       Inr (library_gatsby\<lparr>books := []\<rparr>,
            [ConsoleLog ''[INFO] Libro eliminado: El Gran Gatsby (ISBN: 123456789)''])"
    by simp
  from 1 2 show ?thesis by blast
qed

text \<open>
  Claim C10. The state after \<open>searchByTitle\<close>, \<open>searchByAuthor\<close>, \<open>searchByISBN\<close>,
  \<open>search\<close>, \<open>printAllBooks\<close> or \<open>printAllLoans\<close> is the state before: books, loans,
  email service and observers.
\<close>

theorem read_operations_frame:
  "fst (snd (searchByTitle t s)) = s \<and>
   fst (snd (searchByAuthor a s)) = s \<and>
   fst (snd (searchByISBN i s)) = s \<and>
   fst (snd (search q s)) = s \<and>
   fst (printAllBooks s) = s \<and>
   fst (printAllLoans dts s) = s"
  by (simp add: searchByTitle_def searchByAuthor_def searchByISBN_def search_def Let_def
      printAllBooks_def printAllLoans_def)

theorem read_operations_frame_witness:
  "fst (snd (searchByTitle ''Gran'' library_gatsby)) = library_gatsby \<and>
   fst (snd (searchByAuthor ''Scott'' library_gatsby)) = library_gatsby \<and>
   fst (snd (searchByISBN ''123456789'' library_gatsby)) = library_gatsby \<and>
   fst (snd (search ''Gatsby'' library_gatsby)) = library_gatsby \<and>
   fst (printAllBooks library_gatsby) = library_gatsby \<and>
   fst (printAllLoans (\<lambda>d. ''1970-01-01'') library_gatsby) = library_gatsby"
  using read_operations_frame [of "''Gran''" library_gatsby "''Scott''" "''123456789''" "''Gatsby''"
      "\<lambda>d. ''1970-01-01''"]
  by simp

end
